theory Spec2Isabelle
  imports Complex_Main "HOL-Library.Monad_Syntax"
begin

section \<open>Numbers\<close>

text \<open>
  The program computes on \<open>float64\<close>. The model takes a finite \<open>float64\<close> to be the real
  number it stands for and every arithmetic operation to be exact, so rounding errors of the
  hardware are outside the model; the values that are not numbers are written out where the
  program can produce them (see the hour angle below). Go's \<open>int\<close> is modelled by \<open>int\<close>.
\<close>

definition go_Round :: "real \<Rightarrow> real" where
  \<comment> \<open>\<open>math.Round\<close>: the nearest integer, halfway cases away from zero.\<close>
  "go_Round x = (if 0 \<le> x then of_int \<lfloor>x + 1 / 2\<rfloor> else - of_int \<lfloor>- x + 1 / 2\<rfloor>)"

definition go_int :: "real \<Rightarrow> int" where
  \<comment> \<open>the conversion \<open>int(x)\<close> of a finite float: the fraction is discarded (towards zero).\<close>
  "go_int x = (if 0 \<le> x then \<lfloor>x\<rfloor> else - \<lfloor>- x\<rfloor>)"

definition go_Pow10 :: "int \<Rightarrow> real" where
  \<comment> \<open>\<open>math.Pow(10, float64(places))\<close>\<close>
  "go_Pow10 places = (if 0 \<le> places then 10 ^ nat places else 1 / 10 ^ nat (- places))"

definition roundToPlaces :: "real \<Rightarrow> int \<Rightarrow> real" where
  "roundToPlaces v places = (let factor = go_Pow10 places in go_Round (v * factor) / factor)"

section \<open>Coordinate notation\<close>

record DMS =
  Degrees :: int
  Minutes :: int
  Seconds :: real

definition invalid_direction_line :: string where
  "invalid_direction_line = ''Invalid direction. Use N, S, E, or W.''"

text \<open>
  \<open>DmsToDecimal\<close> returns a \<open>float64\<close> and nothing else; in its default branch it writes a
  line to standard output. The model returns the number together with the lines written.
\<close>

definition DmsToDecimal :: "DMS \<Rightarrow> string \<Rightarrow> real \<times> string list" where
  "DmsToDecimal dms direction =
     (let decimal = of_int (Degrees dms) + of_int (Minutes dms) / 60 + Seconds dms / 3600 in
      if direction = ''S'' \<or> direction = ''W'' then (roundToPlaces (- decimal) 7, [])
      else if direction = ''N'' \<or> direction = ''E'' then (roundToPlaces decimal 7, [])
      else (roundToPlaces decimal 7, [invalid_direction_line]))"

definition DecimalToDMS :: "real \<Rightarrow> bool \<Rightarrow> DMS \<times> string" where
  "DecimalToDMS decimal0 isLatitude =
     (let (direction, decimal) =
            (if isLatitude
             then (if decimal0 < 0 then (''S'', \<bar>decimal0\<bar>) else (''N'', decimal0))
             else (if decimal0 < 0 then (''W'', \<bar>decimal0\<bar>) else (''E'', decimal0)));
          degrees = go_int decimal;
          minutes = go_int ((decimal - of_int degrees) * 60);
          seconds = roundToPlaces ((decimal - of_int degrees) * 60 - of_int minutes) 4 * 60
      in (\<lparr>Degrees = degrees, Minutes = minutes, Seconds = seconds\<rparr>, direction))"

definition dms_value :: "DMS \<Rightarrow> real" where
  \<comment> \<open>the unsigned, unrounded value \<open>degrees + minutes/60 + seconds/3600\<close>\<close>
  "dms_value dms = of_int (Degrees dms) + of_int (Minutes dms) / 60 + Seconds dms / 3600"

section \<open>Parsing DMS text\<close>

text \<open>
  A Go string is a sequence of bytes, here a \<open>char list\<close>. \<open>ParseDMS\<close> matches its input against
  the anchored pattern
  \<^verbatim>\<open>^(\d{1,2})DEG\s+(\d{1,2})'\s+(\d{1,2}(?:\.\d+)?)"\s+([NSEW])$\<close>
  where \<open>DEG\<close> is the degree sign U+00B0, the two bytes \<open>0xC2 0xB0\<close> in UTF-8. In this pattern
  every repetition is followed by a character it cannot match itself, so the greedy match is the
  only one and the matcher below reads the input from left to right: \<open>\d\<close> is an ASCII digit,
  \<open>\s\<close> is one of tab, newline, form feed, carriage return and space, and \<open>$\<close> is the end of
  the text. \<open>strconv.Atoi\<close> and \<open>strconv.ParseFloat\<close> are modelled on the texts the pattern lets
  through (digits, and digits with a decimal fraction), with the value \<open>0\<close> the source is left
  with when it discards their error; \<open>strings.ToUpper\<close> is modelled on ASCII letters.
\<close>

definition isDigit :: "char \<Rightarrow> bool" where
  "isDigit c = (c \<in> set ''0123456789'')"

definition isSpace :: "char \<Rightarrow> bool" where
  "isSpace c = (c \<in> {CHR 0x09, CHR 0x0A, CHR 0x0C, CHR 0x0D, CHR 0x20})"

definition digitVal :: "char \<Rightarrow> nat" where
  "digitVal c = of_char c - 48"

definition decimal :: "string \<Rightarrow> nat" where
  "decimal ds = foldl (\<lambda>a c. 10 * a + digitVal c) 0 ds"

definition Atoi :: "string \<Rightarrow> int" where
  "Atoi s = (if s \<noteq> [] \<and> list_all isDigit s then int (decimal s) else 0)"

definition ParseFloat :: "string \<Rightarrow> real" where
  "ParseFloat s =
     (let i = takeWhile isDigit s; r = dropWhile isDigit s in
      if i = [] then 0
      else case r of
        [] \<Rightarrow> of_nat (decimal i)
      | c # f \<Rightarrow> if c = CHR ''.'' \<and> f \<noteq> [] \<and> list_all isDigit f
                 then of_nat (decimal i) + of_nat (decimal f) / 10 ^ length f else 0)"

definition toUpperChar :: "char \<Rightarrow> char" where
  "toUpperChar c =
     (case map_of (zip ''abcdefghijklmnopqrstuvwxyz'' ''ABCDEFGHIJKLMNOPQRSTUVWXYZ'') c of
        Some u \<Rightarrow> u
      | None \<Rightarrow> c)"

definition ToUpper :: "string \<Rightarrow> string" where
  "ToUpper s = map toUpperChar s"

definition degree_sign :: string where
  "degree_sign = [CHR 0xC2, CHR 0xB0]"

fun digits_1_2 :: "string \<Rightarrow> (string \<times> string) option" where
  "digits_1_2 (a # b # rest) =
     (if isDigit a then (if isDigit b then Some ([a, b], rest) else Some ([a], b # rest))
      else None)"
| "digits_1_2 [a] = (if isDigit a then Some ([a], []) else None)"
| "digits_1_2 [] = None"

definition literal :: "string \<Rightarrow> string \<Rightarrow> string option" where
  "literal p s = (if take (length p) s = p then Some (drop (length p) s) else None)"

definition spaces :: "string \<Rightarrow> string option" where
  "spaces s = (if takeWhile isSpace s = [] then None else Some (dropWhile isSpace s))"

definition fraction :: "string \<Rightarrow> string \<times> string" where
  "fraction s =
     (case s of
        [] \<Rightarrow> ([], s)
      | c # r \<Rightarrow> if c = CHR ''.'' \<and> takeWhile isDigit r \<noteq> []
                 then (c # takeWhile isDigit r, dropWhile isDigit r) else ([], s))"

definition direction_letter :: "string \<Rightarrow> string option" where
  "direction_letter s = (case s of [h] \<Rightarrow> if h \<in> set ''NSEW'' then Some [h] else None | _ \<Rightarrow> None)"

definition FindStringSubmatch :: "string \<Rightarrow> (string \<times> string \<times> string \<times> string) option" where
  "FindStringSubmatch input = do {
     (m1, s1) \<leftarrow> digits_1_2 input;
     s2 \<leftarrow> literal degree_sign s1;
     s3 \<leftarrow> spaces s2;
     (m2, s4) \<leftarrow> digits_1_2 s3;
     s5 \<leftarrow> literal [CHR 0x27] s4;
     s6 \<leftarrow> spaces s5;
     (i, s7) \<leftarrow> digits_1_2 s6;
     (f, s8) \<leftarrow> Some (fraction s7);
     s9 \<leftarrow> literal [CHR 0x22] s8;
     s10 \<leftarrow> spaces s9;
     m4 \<leftarrow> direction_letter s10;
     Some (m1, m2, i @ f, m4)
   }"

definition ParseDMS :: "string \<Rightarrow> string + (DMS \<times> string)" where
  "ParseDMS input =
     (case FindStringSubmatch input of
        None \<Rightarrow> Inl (''invalid DMS format: '' @ input)
      | Some (m1, m2, m3, m4) \<Rightarrow>
          (let degrees = Atoi m1;
               minutes = (if m2 \<noteq> [] then Atoi m2 else 0);
               seconds = (if m3 \<noteq> [] then ParseFloat m3 else 0);
               direction = ToUpper m4
           in Inr (\<lparr>Degrees = degrees, Minutes = minutes, Seconds = seconds\<rparr>, direction)))"

text \<open>The text \<open>dDEG m' s" h\<close>, with single spaces, for writing inputs down.\<close>

definition dms_text :: "string \<Rightarrow> string \<Rightarrow> string \<Rightarrow> string \<Rightarrow> string" where
  "dms_text d m s h = d @ degree_sign @ '' '' @ m @ [CHR 0x27] @ '' '' @ s @ [CHR 0x22] @ '' '' @ h"


section \<open>Time\<close>












subsection \<open>Julian days\<close>





subsection \<open>The conversions of the program\<close>

definition J1970 :: real where "J1970 = 2440588.0"
definition J2000 :: real where "J2000 = 2451545.0"


text \<open>
  A \<open>float64\<close> that may fail to be a number is a \<open>real option\<close>: \<open>None\<close> stands for the values
  that are not finite numbers (NaN and the infinities). What \<open>JDToTime\<close> makes of such a value
  rests on conversions of it to integers, whose result Go leaves to the implementation: it is a
  \<open>time.Time\<close> like any other, and the model says nothing about which.
\<close>

type_synonym float64 = "real option"




section \<open>Solar events\<close>

definition DegreesToRadians :: real where "DegreesToRadians = pi / 180.0"
definition RadiansToDegrees :: real where "RadiansToDegrees = 180.0 / pi"

text \<open>
  Only the hour angle can leave the finite numbers: a division by zero gives an infinity or NaN,
  and \<open>math.Acos\<close> gives NaN outside \<open>[-1, 1]\<close> and for a value that is not a finite number.
  The arcsine of the declination is taken of a product of two sines, always in \<open>[-1, 1]\<close>.
\<close>

definition float_div :: "real \<Rightarrow> real \<Rightarrow> float64" where
  "float_div a b = (if b = 0 then None else Some (a / b))"


text \<open>The lines of \<open>calculateTime\<close>, one definition for each local variable.\<close>

definition solar_Jstar :: "real \<Rightarrow> real \<Rightarrow> real" where
  "solar_Jstar julianDay longitude = (let n = julianDay - J2000 in n - longitude / 360.0)"

definition solar_M :: "real \<Rightarrow> real" where
  "solar_M Jstar = (357.5291 + 0.98560028 * Jstar) * DegreesToRadians"

definition solar_C :: "real \<Rightarrow> real" where
  "solar_C M = 1.9148 * sin M + 0.0200 * sin (2 * M) + 0.0003 * sin (3 * M)"

definition solar_lambda :: "real \<Rightarrow> real \<Rightarrow> real" where
  "solar_lambda M C = (M + C + 102.9372 * DegreesToRadians + pi) * RadiansToDegrees"


definition solar_delta :: "real \<Rightarrow> real" where
  "solar_delta lambda = arcsin (sin (lambda * DegreesToRadians) * sin (23.44 * DegreesToRadians))"

definition hourAngleArgument :: "real \<Rightarrow> real \<Rightarrow> real \<Rightarrow> float64" where
  "hourAngleArgument latitude delta angle =
     (let latRad = latitude * DegreesToRadians;
          declRad = delta
      in float_div (cos (angle * DegreesToRadians) - sin latRad * sin declRad)
           (cos latRad * cos declRad))"












text \<open>
  The condition of the specification: the argument of the arccosine of the hour angle is not
  a number of \<open>[-1, 1]\<close>.
\<close>

definition angle_unreachable :: "real \<Rightarrow> real \<Rightarrow> real \<Rightarrow> real \<Rightarrow> bool" where
  "angle_unreachable julianDay longitude latitude angle =
     (let Jstar = solar_Jstar julianDay longitude;
          M = solar_M Jstar;
          lambda = solar_lambda M (solar_C M)
      in case hourAngleArgument latitude (solar_delta lambda) angle of
           None \<Rightarrow> True
         | Some x \<Rightarrow> x < - 1 \<or> 1 < x)"

section \<open>Rounding\<close>

lemma go_Round_int: "\<exists>k::int. go_Round x = of_int k"
  by (auto simp: go_Round_def intro: exI [of _ "- \<lfloor>- x + 1 / 2\<rfloor>"])

lemma floor_half_near: "\<bar>of_int \<lfloor>y + 1 / 2\<rfloor> - y\<bar> \<le> 1 / (2::real)"
proof -
  have "of_int \<lfloor>y + 1 / 2\<rfloor> \<le> y + 1 / 2" "y + 1 / 2 < of_int \<lfloor>y + 1 / 2\<rfloor> + 1"
    by linarith+
  then show ?thesis by linarith
qed

lemma go_Round_near: "\<bar>go_Round x - x\<bar> \<le> 1 / 2"
proof (cases "0 \<le> x")
  case True
  then show ?thesis using floor_half_near [of x] by (simp add: go_Round_def)
next
  case False
  have "\<bar>- of_int \<lfloor>- x + 1 / 2\<rfloor> - x\<bar> = \<bar>of_int \<lfloor>- x + 1 / 2\<rfloor> - (- x)\<bar>"
    by linarith
  then show ?thesis using False floor_half_near [of "- x"] by (simp add: go_Round_def)
qed

lemma roundToPlaces_near:
  assumes "0 \<le> places"
  shows "\<bar>roundToPlaces v places - v\<bar> \<le> 1 / (2 * 10 ^ nat places)"
proof -
  define f :: real where "f = 10 ^ nat places"
  have fpos: "0 < f" by (simp add: f_def)
  have "\<bar>go_Round (v * f) - v * f\<bar> \<le> 1 / 2" by (rule go_Round_near)
  then have "\<bar>go_Round (v * f) - v * f\<bar> / f \<le> (1 / 2) / f"
    using fpos by (intro divide_right_mono) simp_all
  moreover have "\<bar>go_Round (v * f) - v * f\<bar> / f = \<bar>go_Round (v * f) / f - v\<bar>"
    using fpos by (simp add: abs_div_pos field_simps flip: abs_divide)
  ultimately show ?thesis
    using assms by (simp add: roundToPlaces_def go_Pow10_def f_def Let_def)
qed

lemma go_Pow10_7: "go_Pow10 7 = 10000000"
  by (simp add: go_Pow10_def)
lemma go_Pow10_4: "go_Pow10 4 = 10000"
  by (simp add: go_Pow10_def)
lemma roundToPlaces_7: "roundToPlaces v 7 = go_Round (v * 10000000) / 10000000"
  by (simp add: roundToPlaces_def go_Pow10_7)
lemma roundToPlaces_4: "roundToPlaces v 4 = go_Round (v * 10000) / 10000"
  by (simp add: roundToPlaces_def go_Pow10_4)

lemma roundToPlaces_7_near: "\<bar>roundToPlaces v 7 - v\<bar> \<le> 1 / 20000000"
  using roundToPlaces_near [of 7 v] by simp
lemma roundToPlaces_4_near: "\<bar>roundToPlaces v 4 - v\<bar> \<le> 1 / 20000"
  using roundToPlaces_near [of 4 v] by simp

section \<open>Decimal degrees from DMS\<close>

text \<open>
  Claim C9. \<open>DmsToDecimal\<close> returns \<open>degrees + minutes/60 + seconds/3600\<close>, negated exactly
  when the direction is S or W, rounded to 7 decimal places: the result is a whole number of
  ten-millionths, at most half a ten-millionth from the signed value. For
  \<open>DMS{38, 51, 31.44}\<close> and N it is 38.8587333.
\<close>

theorem DmsToDecimal_value:
  "fst (DmsToDecimal dms direction) =
     roundToPlaces (if direction = ''S'' \<or> direction = ''W'' then - dms_value dms else dms_value dms) 7
   \<and> (\<exists>k::int. fst (DmsToDecimal dms direction) = of_int k / 10 ^ 7)
   \<and> \<bar>fst (DmsToDecimal dms direction) -
        (if direction = ''S'' \<or> direction = ''W'' then - dms_value dms else dms_value dms)\<bar> \<le> 1 / (2 * 10 ^ 7)
   \<and> fst (DmsToDecimal \<lparr>Degrees = 38, Minutes = 51, Seconds = 31.44\<rparr> ''N'') = 38.8587333"
proof -
  let ?s = "if direction = ''S'' \<or> direction = ''W'' then - dms_value dms else dms_value dms"
  have a: "fst (DmsToDecimal dms direction) = roundToPlaces ?s 7"
    by (simp add: DmsToDecimal_def dms_value_def Let_def)
  obtain k :: int where k: "go_Round (?s * 10000000) = of_int k"
    using go_Round_int by blast
  have b: "\<exists>k::int. fst (DmsToDecimal dms direction) = of_int k / 10 ^ 7"
    unfolding a roundToPlaces_7 k by (intro exI [of _ k]) simp
  have c: "\<bar>fst (DmsToDecimal dms direction) - ?s\<bar> \<le> 1 / (2 * 10 ^ 7)"
    unfolding a using roundToPlaces_7_near [of ?s] by simp
  have d: "fst (DmsToDecimal \<lparr>Degrees = 38, Minutes = 51, Seconds = 31.44\<rparr> ''N'') = 38.8587333"
    by (simp add: DmsToDecimal_def roundToPlaces_7 go_Round_def)
  from a b c d show ?thesis by blast
qed

text \<open>
  Claim C6, as stated: a direction outside N, S, E, W makes \<open>DmsToDecimal\<close> fail. It does
  not: for the direction X the function writes its line to standard output and returns the
  value it returns for N.
\<close>

theorem DmsToDecimal_invalid_direction_counterexample:
  "DmsToDecimal \<lparr>Degrees = 38, Minutes = 51, Seconds = 31.44\<rparr> ''X'' =
     (38.8587333, [''Invalid direction. Use N, S, E, or W.''])"
  by (simp add: DmsToDecimal_def roundToPlaces_7 go_Round_def invalid_direction_line_def)

text \<open>
  Claim C6, amended. For every direction outside N, S, E, W, \<open>DmsToDecimal\<close> writes the line
  \<open>Invalid direction. Use N, S, E, or W.\<close> and returns the same number as for the direction N
  (the value is not negated); it has no error result.
\<close>

theorem DmsToDecimal_invalid_direction:
  assumes "direction \<notin> {''N'', ''S'', ''E'', ''W''}"
  shows "DmsToDecimal dms direction =
           (fst (DmsToDecimal dms ''N''), [''Invalid direction. Use N, S, E, or W.''])"
  using assms by (simp add: DmsToDecimal_def invalid_direction_line_def Let_def)

theorem DmsToDecimal_invalid_direction_witness:
  "''X'' \<notin> {''N'', ''S'', ''E'', ''W''} \<and>
   DmsToDecimal \<lparr>Degrees = 1, Minutes = 30, Seconds = 0\<rparr> ''X'' =
     (1.5, [''Invalid direction. Use N, S, E, or W.''])"
proof -
  have h: "''X'' \<notin> {''N'', ''S'', ''E'', ''W''}" by simp
  have "fst (DmsToDecimal \<lparr>Degrees = 1, Minutes = 30, Seconds = 0\<rparr> ''N'') = 1.5"
    by (simp add: DmsToDecimal_def roundToPlaces_7 go_Round_def)
  then show ?thesis
    using h DmsToDecimal_invalid_direction [OF h, of "\<lparr>Degrees = 1, Minutes = 30, Seconds = 0\<rparr>"]
    by simp
qed

section \<open>The round trip through DMS\<close>

lemma go_int_nonneg: "0 \<le> x \<Longrightarrow> go_int x = \<lfloor>x\<rfloor>"
  by (simp add: go_int_def)

lemma decompose_near:
  fixes x :: real
  assumes "0 \<le> x"
  shows "\<bar>dms_value (fst (DecimalToDMS x b)) - x\<bar> \<le> 1 / 1200000"
    and "dms_value (fst (DecimalToDMS (- x) b)) = dms_value (fst (DecimalToDMS x b))"
    and "x \<noteq> 0 \<Longrightarrow> snd (DecimalToDMS (- x) b) = (if b then ''S'' else ''W'')"
    and "snd (DecimalToDMS x b) = (if b then ''N'' else ''E'')"
proof -
  define deg where "deg = \<lfloor>x\<rfloor>"
  define f where "f = (x - of_int deg) * 60"
  define mi where "mi = \<lfloor>f\<rfloor>"
  define g where "g = f - of_int mi"
  have f0: "0 \<le> f" unfolding f_def deg_def by simp
  have eq: "fst (DecimalToDMS x b) = \<lparr>Degrees = deg, Minutes = mi, Seconds = roundToPlaces g 4 * 60\<rparr>"
    using assms f0 by (simp add: DecimalToDMS_def Let_def go_int_nonneg deg_def f_def mi_def g_def)
  define e where "e = roundToPlaces g 4 - g"
  have d: "dms_value (fst (DecimalToDMS x b)) - x = e / 60"
    unfolding eq e_def by (simp add: dms_value_def g_def f_def field_simps)
  have "\<bar>e\<bar> \<le> 1 / 20000"
    unfolding e_def by (rule roundToPlaces_4_near)
  then have b: "\<bar>e / 60\<bar> \<le> 1 / 1200000"
    by simp
  show "\<bar>dms_value (fst (DecimalToDMS x b)) - x\<bar> \<le> 1 / 1200000"
    unfolding d by (rule b)
  show "dms_value (fst (DecimalToDMS (- x) b)) = dms_value (fst (DecimalToDMS x b))"
  proof (cases "x = 0")
    case True
    then show ?thesis by simp
  next
    case False
    then show ?thesis using assms by (simp add: DecimalToDMS_def Let_def)
  qed
  show "x \<noteq> 0 \<Longrightarrow> snd (DecimalToDMS (- x) b) = (if b then ''S'' else ''W'')"
    using assms by (simp add: DecimalToDMS_def Let_def)
  show "snd (DecimalToDMS x b) = (if b then ''N'' else ''E'')"
    using assms by (simp add: DecimalToDMS_def Let_def)
qed

text \<open>
  Claim C4. For every decimal-degree value \<open>d\<close> and either axis, \<open>DmsToDecimal\<close> applied to
  the result of \<open>DecimalToDMS\<close> is within \<open>1e-6\<close> degrees of \<open>d\<close>.
\<close>

theorem DecimalToDMS_roundtrip:
  "\<bar>fst (DmsToDecimal (fst (DecimalToDMS d isLatitude)) (snd (DecimalToDMS d isLatitude))) - d\<bar>
     < 1 / 1000000"
proof (cases "0 \<le> d")
  case True
  have "fst (DmsToDecimal (fst (DecimalToDMS d isLatitude)) (snd (DecimalToDMS d isLatitude)))
          = roundToPlaces (dms_value (fst (DecimalToDMS d isLatitude))) 7"
    by (simp add: decompose_near(4) [OF True] DmsToDecimal_def dms_value_def Let_def)
  then show ?thesis
    using decompose_near(1) [OF True, of isLatitude]
      roundToPlaces_7_near [of "dms_value (fst (DecimalToDMS d isLatitude))"]
    by linarith
next
  case False
  then have p: "0 \<le> - d" "- d \<noteq> 0" by simp_all
  have "fst (DmsToDecimal (fst (DecimalToDMS d isLatitude)) (snd (DecimalToDMS d isLatitude)))
          = roundToPlaces (- dms_value (fst (DecimalToDMS (- d) isLatitude))) 7"
    using decompose_near(3) [OF p, of isLatitude] decompose_near(2) [OF p(1), of isLatitude]
    by (simp add: DmsToDecimal_def dms_value_def Let_def)
  then show ?thesis
    using decompose_near(1) [OF p(1), of isLatitude]
      roundToPlaces_7_near [of "- dms_value (fst (DecimalToDMS (- d) isLatitude))"]
    by linarith
qed

section \<open>The parser\<close>

lemmas parse_simps = ParseDMS_def FindStringSubmatch_def dms_text_def degree_sign_def literal_def
  spaces_def fraction_def direction_letter_def isDigit_def isSpace_def Atoi_def ParseFloat_def
  decimal_def digitVal_def ToUpper_def toUpperChar_def









lemma takeWhile_all: "list_all P xs \<Longrightarrow> takeWhile P (xs @ y # ys) = (if P y then xs @ takeWhile P (y # ys) else xs)"
  by (induction xs) auto





section \<open>The DMS values the program builds\<close>







text \<open>
  A fraction of a minute of 0.99995 or more is rounded up to a whole minute and becomes
  60 seconds, without a carry into the minutes.
\<close>

lemma seconds_sixty:
  "DecimalToDMS 0.0166666 True = (\<lparr>Degrees = 0, Minutes = 0, Seconds = 60\<rparr>, ''N'')"
  by (simp add: DecimalToDMS_def roundToPlaces_4 go_Round_def go_int_def)


section \<open>The hemisphere letter\<close>

text \<open>
  Claim C5 says that \<open>ParseDMS\<close> takes the hemisphere letter in either case and returns it in
  upper case. The source does upper-case the letter it matched (\<open>strings.ToUpper\<close> turns \<open>n\<close>
  into \<open>N\<close>), but its pattern only lets the four capitals through: the text
  \<open>38DEG 51' 31.44" n\<close> is rejected, with the error that names the input, where the same text
  with \<open>N\<close> is parsed. The text \<open>38 51 31 N\<close> is rejected as the claim says.
\<close>

theorem ParseDMS_lowercase_hemisphere:
  "ParseDMS (dms_text ''38'' ''51'' ''31.44'' ''n'') =
     Inl (''invalid DMS format: '' @ dms_text ''38'' ''51'' ''31.44'' ''n'')
   \<and> ParseDMS (dms_text ''38'' ''51'' ''31.44'' ''N'') =
     Inr (\<lparr>Degrees = 38, Minutes = 51, Seconds = 31.44\<rparr>, ''N'')
   \<and> ToUpper ''n'' = ''N''
   \<and> ParseDMS ''38 51 31 N'' = Inl ''invalid DMS format: 38 51 31 N''"
  by (simp add: parse_simps)

section \<open>The calendar\<close>













section \<open>Julian days and instants\<close>






section \<open>The round trip through a Julian day\<close>





section \<open>The day a solar event is computed for\<close>




end
